theory Spec2Isabelle
  imports
    Main
    "HOL-Library.Word"
    "HOL-Library.AList"
    "HOL-Library.Char_ord"
    "HOL-Library.List_Lexorder"
begin

section \<open>Data model\<close>

text \<open>
  The transaction handler is the interface \<open>data.TransactionHandler\<close>; only its getters are
  used. \<open>GetValue\<close> is a \<open>*big.Int\<close>, which may be nil.
\<close>

record TransactionHandler =
  GetNonce :: "64 word"
  GetSndAddr :: string
  GetGasLimit :: "64 word"
  GetGasPrice :: "64 word"
  GetData :: string
  GetValue :: "int option"

text \<open>
  \<open>WrappedTransaction\<close>. The field \<open>Tx\<close> is an interface value and may be nil, so the record is
  parametrised by the type of \<open>Tx\<close>: a transaction as a caller hands it to \<open>AddTx\<close> has an
  optional handler (and the pointer itself may be nil), a transaction held by the cache has a
  handler, since \<open>AddTx\<close> refuses the others. \<open>Fee\<close> and \<open>TransferredValue\<close> are \<open>*big.Int\<close>
  (nil until precomputed, arbitrary precision afterwards).
\<close>

record 'h WrappedTransactionOf =
  Tx :: 'h
  TxHash :: string
  Size :: nat
  PricePerGasUnit :: nat
  TransferredValue :: "int option"
  Fee :: "int option"
  FeePayer :: string

type_synonym WrappedTransaction = "TransactionHandler WrappedTransactionOf"

type_synonym WrappedTransactionPtr = "(TransactionHandler option) WrappedTransactionOf option"

definition txNonce :: "WrappedTransaction \<Rightarrow> 64 word" where
  "txNonce tx = GetNonce (Tx tx)"

definition txSender :: "WrappedTransaction \<Rightarrow> string" where
  "txSender tx = GetSndAddr (Tx tx)"

section \<open>Selection session wrapper (selectionSessionWrapper.go)\<close>

record AccountState =
  Nonce :: "64 word"
  Balance :: int

datatype sessionError = SessionError string

record accountRecord =
  initialNonce :: "64 word"
  initialBalance :: int
  consumedBalance :: int

text \<open>
  The wrapper owns the session and the map of records. A record is a pointer stored in the
  map under its address, so mutating a record is an update of the map at that address.
  \<open>sessionCalls\<close> is the trace of the calls made to \<open>session.GetAccountState\<close>, in order.
\<close>

record selectionSessionWrapper =
  session :: "string \<Rightarrow> sessionError + AccountState"
  recordsByAddress :: "string \<rightharpoonup> accountRecord"
  sessionCalls :: "string list"

definition newSelectionSessionWrapper ::
  "(string \<Rightarrow> sessionError + AccountState) \<Rightarrow> selectionSessionWrapper" where
  "newSelectionSessionWrapper s =
     \<lparr>session = s, recordsByAddress = Map.empty, sessionCalls = []\<rparr>"

definition getAccountRecord ::
  "selectionSessionWrapper \<Rightarrow> string \<Rightarrow> accountRecord \<times> selectionSessionWrapper" where
  "getAccountRecord w address =
     (case recordsByAddress w address of
        Some record \<Rightarrow> (record, w)
      | None \<Rightarrow>
          (let record =
                 (case session w address of
                    Inl err \<Rightarrow>
                      \<lparr>initialNonce = 0, initialBalance = 0, consumedBalance = 0\<rparr>
                  | Inr state \<Rightarrow>
                      \<lparr>initialNonce = Nonce state, initialBalance = Balance state,
                       consumedBalance = 0\<rparr>)
           in (record,
               w\<lparr>recordsByAddress := (recordsByAddress w)(address \<mapsto> record),
                 sessionCalls := sessionCalls w @ [address]\<rparr>)))"

definition getNonce :: "selectionSessionWrapper \<Rightarrow> string \<Rightarrow> 64 word \<times> selectionSessionWrapper" where
  "getNonce w address =
     (case getAccountRecord w address of (record, w') \<Rightarrow> (initialNonce record, w'))"

text \<open>\<open>record.consumedBalance.Add(record.consumedBalance, v)\<close> on the record stored under an address.\<close>

definition addToConsumedBalance ::
  "selectionSessionWrapper \<Rightarrow> string \<Rightarrow> int \<Rightarrow> selectionSessionWrapper" where
  "addToConsumedBalance w address v =
     (case recordsByAddress w address of
        None \<Rightarrow> w
      | Some record \<Rightarrow>
          w\<lparr>recordsByAddress :=
              (recordsByAddress w)(address \<mapsto>
                 record\<lparr>consumedBalance := consumedBalance record + v\<rparr>)\<rparr>)"

definition accumulateConsumedBalance ::
  "selectionSessionWrapper \<Rightarrow> WrappedTransaction \<Rightarrow> selectionSessionWrapper" where
  "accumulateConsumedBalance w tx =
     (let sender = GetSndAddr (Tx tx);
          feePayer = FeePayer tx;
          w1 = snd (getAccountRecord w sender);
          w2 = snd (getAccountRecord w1 feePayer);
          w3 = (case TransferredValue tx of
                  None \<Rightarrow> w2
                | Some transferredValue \<Rightarrow> addToConsumedBalance w2 sender transferredValue)
      in (case Fee tx of
            None \<Rightarrow> w3
          | Some fee \<Rightarrow> addToConsumedBalance w3 feePayer fee))"

definition detectWillFeeExceedBalance ::
  "selectionSessionWrapper \<Rightarrow> WrappedTransaction \<Rightarrow> bool \<times> selectionSessionWrapper" where
  "detectWillFeeExceedBalance w tx =
     (case Fee tx of
        None \<Rightarrow> (False, w)
      | Some fee \<Rightarrow>
          (case getAccountRecord w (FeePayer tx) of
             (feePayerRecord, w') \<Rightarrow>
               (let futureConsumedBalance = consumedBalance feePayerRecord + fee;
                    feePayerBalance = initialBalance feePayerRecord
                in (futureConsumedBalance > feePayerBalance, w'))))"

text \<open>
  The operations a selection performs on its wrapper, and a run of them from a fresh wrapper.
\<close>

datatype wrapperOp =
    OpGetAccountRecord string
  | OpGetNonce string
  | OpAccumulateConsumedBalance WrappedTransaction
  | OpDetectWillFeeExceedBalance WrappedTransaction

fun applyOp :: "selectionSessionWrapper \<Rightarrow> wrapperOp \<Rightarrow> selectionSessionWrapper" where
  "applyOp w (OpGetAccountRecord a) = snd (getAccountRecord w a)"
| "applyOp w (OpGetNonce a) = snd (getNonce w a)"
| "applyOp w (OpAccumulateConsumedBalance tx) = accumulateConsumedBalance w tx"
| "applyOp w (OpDetectWillFeeExceedBalance tx) = snd (detectWillFeeExceedBalance w tx)"

definition runOps :: "selectionSessionWrapper \<Rightarrow> wrapperOp list \<Rightarrow> selectionSessionWrapper" where
  "runOps w ops = foldl applyOp w ops"

text \<open>The consumed balance and the initial balance a lookup of the address reports.\<close>

definition consumedBalanceOf :: "selectionSessionWrapper \<Rightarrow> string \<Rightarrow> int" where
  "consumedBalanceOf w address = consumedBalance (fst (getAccountRecord w address))"

definition initialBalanceOf :: "selectionSessionWrapper \<Rightarrow> string \<Rightarrow> int" where
  "initialBalanceOf w address = initialBalance (fst (getAccountRecord w address))"


text \<open>The session and the transactions of scenario S6: every account has balance 100.\<close>

definition aliceSession :: "string \<Rightarrow> sessionError + AccountState" where
  "aliceSession address = Inr \<lparr>Nonce = 0, Balance = 100\<rparr>"

definition aliceTx :: "64 word \<Rightarrow> string \<Rightarrow> int option \<Rightarrow> int option \<Rightarrow> WrappedTransaction" where
  "aliceTx nonce hash value fee =
     \<lparr>Tx = \<lparr>GetNonce = nonce, GetSndAddr = ''alice'', GetGasLimit = 50000, GetGasPrice = 1,
             GetData = [], GetValue = value\<rparr>,
      TxHash = hash, Size = 100, PricePerGasUnit = 1, TransferredValue = value, Fee = fee,
      FeePayer = ''alice''\<rparr>"

section \<open>Configuration\<close>

text \<open>
  \<open>ConfigSourceMe\<close>: its declaration is not among the sources; the fields are the options the
  spec lists, with the width the code converts them from (\<open>uint64(config.CountThreshold)\<close>,
  \<open>math.MaxUint32\<close> in the tests).
\<close>

record ConfigSourceMe =
  Name :: string
  NumChunks :: "32 word"
  NumBytesThreshold :: "32 word"
  NumBytesPerSenderThreshold :: "32 word"
  CountThreshold :: "32 word"
  CountPerSenderThreshold :: "32 word"
  EvictionEnabled :: bool
  NumItemsToPreemptivelyEvict :: "32 word"

record senderConstraints =
  maxNumTxs :: "32 word"
  maxNumBytes :: "32 word"

definition getSenderConstraints :: "ConfigSourceMe \<Rightarrow> senderConstraints" where
  "getSenderConstraints cfg =
     \<lparr>maxNumTxs = CountPerSenderThreshold cfg, maxNumBytes = NumBytesPerSenderThreshold cfg\<rparr>"

section \<open>Tx-by-hash map\<close>

text \<open>
  Modelled from the spec: \<open>txByHashMap\<close> (its file is not among the sources). A mapping from
  \<open>TxHash\<close> to the transaction with unique keys, here an association list; the counters
  \<open>counter\<close> and \<open>numBytes\<close> the spec has it maintain are the number of entries and the sum of
  their sizes.
\<close>

type_synonym txByHashMap = "(string \<times> WrappedTransaction) list"

definition getTx :: "txByHashMap \<Rightarrow> string \<Rightarrow> WrappedTransaction option" where
  "getTx m txHash = map_of m txHash"

text \<open>Modelled from the spec: insert-if-absent, reporting whether the map changed.\<close>

definition txByHash_addTx :: "txByHashMap \<Rightarrow> WrappedTransaction \<Rightarrow> bool \<times> txByHashMap" where
  "txByHash_addTx m tx =
     (case map_of m (TxHash tx) of
        Some present \<Rightarrow> (False, m)
      | None \<Rightarrow> (True, m @ [(TxHash tx, tx)]))"

text \<open>Modelled from the spec: remove by hash, obtaining the transaction when it was present.\<close>

definition removeTx :: "txByHashMap \<Rightarrow> string \<Rightarrow> (WrappedTransaction \<times> txByHashMap) option" where
  "removeTx m txHash =
     (case map_of m txHash of
        None \<Rightarrow> None
      | Some tx \<Rightarrow> Some (tx, AList.delete txHash m))"

text \<open>Modelled from the spec: bulk removal of hashes; the result counts the entries removed.\<close>

definition RemoveTxsBulk :: "txByHashMap \<Rightarrow> string list \<Rightarrow> nat \<times> txByHashMap" where
  "RemoveTxsBulk m txHashes =
     (let m' = foldl (\<lambda>acc txHash. AList.delete txHash acc) m txHashes
      in (length m - length m', m'))"

definition txByHash_counter :: "txByHashMap \<Rightarrow> nat" where
  "txByHash_counter m = length m"

definition txByHash_numBytes :: "txByHashMap \<Rightarrow> nat" where
  "txByHash_numBytes m = sum_list (map (\<lambda>(txHash, tx). Size tx) m)"

section \<open>Per-sender list and tx-by-sender map\<close>

text \<open>
  Modelled from the spec: \<open>txListForSender\<close> (its file is not among the sources). The list of a
  sender's transactions, ascending by nonce; ties are broken by gas price descending, then by
  hash ascending.
\<close>

definition isBeforeInList :: "WrappedTransaction \<Rightarrow> WrappedTransaction \<Rightarrow> bool" where
  "isBeforeInList a b =
     (txNonce a < txNonce b
      \<or> (txNonce a = txNonce b
          \<and> (GetGasPrice (Tx a) > GetGasPrice (Tx b)
              \<or> (GetGasPrice (Tx a) = GetGasPrice (Tx b) \<and> TxHash a < TxHash b))))"

fun insertInList :: "WrappedTransaction \<Rightarrow> WrappedTransaction list \<Rightarrow> WrappedTransaction list" where
  "insertInList tx [] = [tx]"
| "insertInList tx (x # xs) =
     (if isBeforeInList tx x then tx # x # xs else x # insertInList tx xs)"

definition listNumBytes :: "WrappedTransaction list \<Rightarrow> nat" where
  "listNumBytes txs = sum_list (map Size txs)"

definition listIsCapacityExceeded :: "senderConstraints \<Rightarrow> WrappedTransaction list \<Rightarrow> bool" where
  "listIsCapacityExceeded constraints txs =
     (listNumBytes txs > unat (maxNumBytes constraints)
      \<or> length txs > unat (maxNumTxs constraints))"

text \<open>
  Modelled from the spec: on a violated constraint "the list evicts its own highest-nonce
  transactions until constraints hold, returning their hashes". The result is the list kept
  and the hashes evicted, highest nonce first.
\<close>

function applySizeConstraints ::
  "senderConstraints \<Rightarrow> WrappedTransaction list \<Rightarrow> WrappedTransaction list \<times> string list" where
  "applySizeConstraints constraints txs =
     (if txs \<noteq> [] \<and> listIsCapacityExceeded constraints txs
      then (case applySizeConstraints constraints (butlast txs) of
              (kept, evicted) \<Rightarrow> (kept, TxHash (last txs) # evicted))
      else (txs, []))"
  by pat_completeness auto
termination
  by (relation "measure (\<lambda>(constraints, txs). length txs)") auto

text \<open>
  Modelled from the spec: the list's insertion, "inserts in nonce order (no-op if (nonce,hash)
  already present), then shrinks the list until per-sender constraints hold, returning evicted
  hashes". The result is (added, evicted hashes, new list).
\<close>

definition isInList :: "WrappedTransaction \<Rightarrow> WrappedTransaction list \<Rightarrow> bool" where
  "isInList tx txs = list_ex (\<lambda>t. txNonce t = txNonce tx \<and> TxHash t = TxHash tx) txs"

definition listForSender_AddTx ::
  "senderConstraints \<Rightarrow> WrappedTransaction list \<Rightarrow> WrappedTransaction
     \<Rightarrow> bool \<times> string list \<times> WrappedTransaction list" where
  "listForSender_AddTx constraints txs tx =
     (let added = \<not> isInList tx txs;
          inserted = (if added then insertInList tx txs else txs)
      in (case applySizeConstraints constraints inserted of
            (kept, evicted) \<Rightarrow> (added, evicted, kept)))"

definition getTxsReversed :: "WrappedTransaction list \<Rightarrow> WrappedTransaction list" where
  "getTxsReversed txs = rev txs"

text \<open>
  Modelled from the spec: \<open>txListBySenderMap\<close> (its file is not among the sources). A mapping
  from sender to per-sender list with unique keys, here an association list; "empty lists are
  removed eagerly"; the counter is the number of senders.
\<close>

type_synonym txListBySenderMap = "(string \<times> WrappedTransaction list) list"

definition getListForSender :: "txListBySenderMap \<Rightarrow> string \<Rightarrow> WrappedTransaction list option" where
  "getListForSender m sender = map_of m sender"

definition setListForSender ::
  "txListBySenderMap \<Rightarrow> string \<Rightarrow> WrappedTransaction list \<Rightarrow> txListBySenderMap" where
  "setListForSender m sender txs =
     (if txs = [] then AList.delete sender m else AList.update sender txs m)"

definition addTxReturnEvicted ::
  "senderConstraints \<Rightarrow> txListBySenderMap \<Rightarrow> WrappedTransaction
     \<Rightarrow> bool \<times> string list \<times> txListBySenderMap" where
  "addTxReturnEvicted constraints m tx =
     (let sender = txSender tx;
          listForSender = (case map_of m sender of None \<Rightarrow> [] | Some txs \<Rightarrow> txs)
      in (case listForSender_AddTx constraints listForSender tx of
            (added, evicted, kept) \<Rightarrow> (added, evicted, setListForSender m sender kept)))"

text \<open>
  Modelled from the spec: "From the per-sender list for tx.sender, remove every transaction
  with nonce \<le> tx.nonce, returning their hashes."
\<close>

definition removeTransactionsWithLowerOrEqualNonceReturnHashes ::
  "txListBySenderMap \<Rightarrow> WrappedTransaction \<Rightarrow> string list \<times> txListBySenderMap" where
  "removeTransactionsWithLowerOrEqualNonceReturnHashes m tx =
     (let sender = txSender tx
      in (case map_of m sender of
            None \<Rightarrow> ([], m)
          | Some txs \<Rightarrow>
              (map TxHash (filter (\<lambda>t. txNonce t \<le> txNonce tx) txs),
               setListForSender m sender (filter (\<lambda>t. \<not> txNonce t \<le> txNonce tx) txs))))"

text \<open>
  Modelled from the spec: "remove from its per-sender list every transaction with nonce \<ge>
  that lowest nonce in one operation".
\<close>

definition removeTransactionsWithHigherOrEqualNonce ::
  "txListBySenderMap \<Rightarrow> string \<Rightarrow> 64 word \<Rightarrow> txListBySenderMap" where
  "removeTransactionsWithHigherOrEqualNonce m sender nonce =
     (case map_of m sender of
        None \<Rightarrow> m
      | Some txs \<Rightarrow> setListForSender m sender (filter (\<lambda>t. \<not> txNonce t \<ge> nonce) txs))"

definition getSenders :: "txListBySenderMap \<Rightarrow> WrappedTransaction list list" where
  "getSenders m = map snd m"

definition txListBySender_counter :: "txListBySenderMap \<Rightarrow> nat" where
  "txListBySender_counter m = length m"


section \<open>The cache (txCache.go)\<close>

text \<open>
  Modelled from the spec: \<open>precomputeFields\<close> (wrappedTransaction.go is not among the sources).
  The fields are "populated once by the host collaborator"; the spec gives no formulas, so
  the host is the function that populates them.
\<close>

record MempoolHost =
  precompute :: "WrappedTransaction \<Rightarrow> WrappedTransaction"

definition precomputeFields :: "MempoolHost \<Rightarrow> WrappedTransaction \<Rightarrow> WrappedTransaction" where
  "precomputeFields h tx = precompute h tx"

text \<open>
  The two mutexes serialise goroutines and have no content in a sequential run; the flag
  \<open>isEvictionInProgress\<close> is kept, since \<open>doEviction\<close> reads it.
\<close>

record TxCache =
  txListBySender :: txListBySenderMap
  txByHash :: txByHashMap
  config :: ConfigSourceMe
  host :: MempoolHost
  isEvictionInProgress :: bool

definition NumBytes :: "TxCache \<Rightarrow> nat" where
  "NumBytes cache = txByHash_numBytes (txByHash cache)"

definition CountTx :: "TxCache \<Rightarrow> nat" where
  "CountTx cache = txByHash_counter (txByHash cache)"

definition CountSenders :: "TxCache \<Rightarrow> nat" where
  "CountSenders cache = txListBySender_counter (txListBySender cache)"

definition GetByTxHash :: "TxCache \<Rightarrow> string \<Rightarrow> WrappedTransaction option" where
  "GetByTxHash cache txHash = getTx (txByHash cache) txHash"

definition GetTransactionsPoolForSender :: "TxCache \<Rightarrow> string \<Rightarrow> WrappedTransaction list" where
  "GetTransactionsPoolForSender cache sender =
     (case getListForSender (txListBySender cache) sender of
        None \<Rightarrow> []
      | Some listForSender \<Rightarrow> listForSender)"

section \<open>Eviction (eviction.go)\<close>

definition areThereTooManyBytes :: "TxCache \<Rightarrow> bool" where
  "areThereTooManyBytes cache = (NumBytes cache > unat (NumBytesThreshold (config cache)))"

definition areThereTooManySenders :: "TxCache \<Rightarrow> bool" where
  "areThereTooManySenders cache = (CountSenders cache > unat (CountThreshold (config cache)))"

definition areThereTooManyTxs :: "TxCache \<Rightarrow> bool" where
  "areThereTooManyTxs cache = (CountTx cache > unat (CountThreshold (config cache)))"

definition isCapacityExceeded :: "TxCache \<Rightarrow> bool" where
  "isCapacityExceeded cache =
     (areThereTooManyBytes cache \<or> areThereTooManySenders cache \<or> areThereTooManyTxs cache)"

text \<open>
  Modelled from the spec: the heap of cursors (its file is not among the sources). A cursor
  is the current transaction of a bunch and the transactions of the bunch after it. "The heap
  ordering places the worst transaction at the top ... lower price-per-gas-unit is worse, with
  tie-break on hash" (the comparator of selection inverted, so the greater hash is worse).
  The heap is the list of its items; popping takes the item whose current transaction is the
  worst.
\<close>

record transactionsHeapItem =
  currentTransaction :: WrappedTransaction
  bunchRest :: "WrappedTransaction list"

type_synonym transactionsHeap = "transactionsHeapItem list"

definition newTransactionsHeapItem :: "WrappedTransaction list \<Rightarrow> transactionsHeapItem option" where
  "newTransactionsHeapItem bunch =
     (case bunch of
        [] \<Rightarrow> None
      | tx # rest \<Rightarrow> Some \<lparr>currentTransaction = tx, bunchRest = rest\<rparr>)"

definition gotoNextTransaction :: "transactionsHeapItem \<Rightarrow> transactionsHeapItem option" where
  "gotoNextTransaction item =
     (case bunchRest item of
        [] \<Rightarrow> None
      | tx # rest \<Rightarrow> Some \<lparr>currentTransaction = tx, bunchRest = rest\<rparr>)"

definition isLessValuable :: "WrappedTransaction \<Rightarrow> WrappedTransaction \<Rightarrow> bool" where
  "isLessValuable a b =
     (PricePerGasUnit a < PricePerGasUnit b
      \<or> (PricePerGasUnit a = PricePerGasUnit b \<and> TxHash a > TxHash b))"

fun worstItem :: "transactionsHeapItem \<Rightarrow> transactionsHeapItem list \<Rightarrow> transactionsHeapItem" where
  "worstItem item [] = item"
| "worstItem item (other # rest) =
     worstItem
       (if isLessValuable (currentTransaction other) (currentTransaction item) then other else item)
       rest"

definition heapPush :: "transactionsHeap \<Rightarrow> transactionsHeapItem \<Rightarrow> transactionsHeap" where
  "heapPush h item = h @ [item]"

definition heapPop :: "transactionsHeap \<Rightarrow> (transactionsHeapItem \<times> transactionsHeap) option" where
  "heapPop h =
     (case h of
        [] \<Rightarrow> None
      | item # rest \<Rightarrow> (let worst = worstItem item rest in Some (worst, remove1 worst h)))"

definition heapSize :: "transactionsHeap \<Rightarrow> nat" where
  "heapSize h = sum_list (map (\<lambda>item. Suc (length (bunchRest item))) h)"

text \<open>The heap of \<open>evictLeastLikelyToSelectTransactions\<close>: one item for each non-empty bunch.\<close>

definition initialTransactionsHeap :: "TxCache \<Rightarrow> transactionsHeap" where
  "initialTransactionsHeap cache =
     foldl (\<lambda>h bunch. (case newTransactionsHeapItem bunch of
                          None \<Rightarrow> h
                        | Some item \<Rightarrow> heapPush h item))
       [] (map getTxsReversed (getSenders (txListBySender cache)))"

text \<open>
  The inner loop of a pass (eviction.go, lines 120 to 138): pop, stop when enough
  transactions are collected, else collect the popped item's transaction and push the item
  back when its bunch has a next transaction. The result is \<open>transactionsToEvict\<close> and the heap
  as the loop leaves it.
\<close>

function selectTransactionsToEvict ::
  "nat \<Rightarrow> transactionsHeap \<Rightarrow> WrappedTransaction list
     \<Rightarrow> WrappedTransaction list \<times> transactionsHeap" where
  "selectTransactionsToEvict numToEvict h transactionsToEvict =
     (case heapPop h of
        None \<Rightarrow> (transactionsToEvict, h)
      | Some (item, h') \<Rightarrow>
          (if length transactionsToEvict \<ge> numToEvict
           then (transactionsToEvict, h')
           else (case gotoNextTransaction item of
                   None \<Rightarrow>
                     selectTransactionsToEvict numToEvict h'
                       (transactionsToEvict @ [currentTransaction item])
                 | Some next \<Rightarrow>
                     selectTransactionsToEvict numToEvict (heapPush h' next)
                       (transactionsToEvict @ [currentTransaction item]))))"
  by pat_completeness auto
termination
proof (relation "measure (\<lambda>(numToEvict, h, transactionsToEvict). heapSize h)")
  show "wf (measure (\<lambda>(numToEvict, h, transactionsToEvict). heapSize h))"
    by simp
next
  fix numToEvict :: nat and h :: transactionsHeap and transactionsToEvict :: "WrappedTransaction list"
    and x item h'
  assume pop: "heapPop h = Some x" "(item, h') = x"
  then obtain first rest where h: "h = first # rest" "item = worstItem first rest"
    "h' = remove1 item h"
    by (auto simp: heapPop_def Let_def split: list.splits)
  have mem: "worstItem a xs \<in> set (a # xs)" for a xs
    by (induction xs arbitrary: a) auto
  have "item \<in> set h"
    using h mem by simp
  then have size: "heapSize h = Suc (length (bunchRest item)) + heapSize h'"
    unfolding heapSize_def h(3) by (rule sum_list_map_remove1)
  {
    assume "gotoNextTransaction item = None"
    show "((numToEvict, h', transactionsToEvict @ [currentTransaction item]),
           (numToEvict, h, transactionsToEvict))
          \<in> measure (\<lambda>(numToEvict, h, transactionsToEvict). heapSize h)"
      using size by simp
  }
  {
    fix "next"
    assume "gotoNextTransaction item = Some next"
    then have "Suc (length (bunchRest next)) = length (bunchRest item)"
      by (auto simp: gotoNextTransaction_def split: list.splits)
    then show "((numToEvict, heapPush h' next, transactionsToEvict @ [currentTransaction item]),
           (numToEvict, h, transactionsToEvict))
          \<in> measure (\<lambda>(numToEvict, h, transactionsToEvict). heapSize h)"
      using size by (simp add: heapPush_def heapSize_def)
  }
qed


text \<open>
  The rest of a pass (eviction.go, lines 145 to 160): the nonce recorded for each sender,
  the removal from the per-sender lists, the removal from the tx-by-hash map. The Go map
  \<open>lowestToEvictBySender\<close> is an association list; ranging over it visits each sender once.
\<close>

definition lowestToEvictBySender :: "WrappedTransaction list \<Rightarrow> (string \<times> 64 word) list" where
  "lowestToEvictBySender transactionsToEvict =
     foldl (\<lambda>m tx. AList.update (txSender tx) (txNonce tx) m) [] transactionsToEvict"

definition evictTransactions :: "TxCache \<Rightarrow> WrappedTransaction list \<Rightarrow> TxCache" where
  "evictTransactions cache transactionsToEvict =
     cache\<lparr>txListBySender :=
             foldl (\<lambda>m (sender, nonce). removeTransactionsWithHigherOrEqualNonce m sender nonce)
               (txListBySender cache) (lowestToEvictBySender transactionsToEvict),
           txByHash :=
             snd (RemoveTxsBulk (txByHash cache) (map TxHash transactionsToEvict))\<rparr>"

text \<open>
  The pass loop (eviction.go, lines 115 to 166). The result lists the passes that evicted
  something: the \<open>transactionsToEvict\<close> of the pass and the cache after it.
\<close>

function evictionPasses ::
  "TxCache \<Rightarrow> transactionsHeap \<Rightarrow> (WrappedTransaction list \<times> TxCache) list" where
  "evictionPasses cache h =
     (if isCapacityExceeded cache
      then (case selectTransactionsToEvict
                   (unat (NumItemsToPreemptivelyEvict (config cache))) h [] of
              (transactionsToEvict, h') \<Rightarrow>
                (if transactionsToEvict = [] then []
                 else (transactionsToEvict, evictTransactions cache transactionsToEvict)
                      # evictionPasses (evictTransactions cache transactionsToEvict) h'))
      else [])"
  by pat_completeness auto
termination
proof (relation "measure (\<lambda>(cache, h). heapSize h)")
  show "wf (measure (\<lambda>(cache, h). heapSize h))"
    by simp
next
  fix cache :: TxCache and h :: transactionsHeap and transactionsToEvict h'
  assume sel: "(transactionsToEvict, h') =
                 selectTransactionsToEvict
                   (unat (NumItemsToPreemptivelyEvict (config cache))) h []"
    and nonempty: "transactionsToEvict \<noteq> []"
  have popSize: "heapSize g = Suc (length (bunchRest item)) + heapSize g'"
    if "heapPop g = Some (item, g')" for g item g'
  proof -
    from that obtain first rest where g: "g = first # rest" "item = worstItem first rest"
      "g' = remove1 item g"
      by (auto simp: heapPop_def Let_def split: list.splits)
    have "worstItem a xs \<in> set (a # xs)" for a xs
      by (induction xs arbitrary: a) auto
    then have "item \<in> set g"
      using g by simp
    then show ?thesis
      unfolding heapSize_def g(3) by (rule sum_list_map_remove1)
  qed
  have decr: "selectTransactionsToEvict n g acc = (txs, g') \<Longrightarrow>
              heapSize g' \<le> heapSize g \<and> (txs \<noteq> acc \<longrightarrow> heapSize g' < heapSize g)"
    for n g acc txs g'
  proof (induction n g acc arbitrary: txs g' rule: selectTransactionsToEvict.induct)
    case (1 n g acc)
    show ?case
    proof (cases "heapPop g")
      case None
      with "1.prems" show ?thesis by simp
    next
      case (Some p)
      obtain item g1 where p: "p = (item, g1)" by (cases p)
      note size = popSize [OF Some [unfolded p]]
      show ?thesis
      proof (cases "length acc \<ge> n")
        case True
        with "1.prems" Some p size show ?thesis by simp
      next
        case False
        show ?thesis
        proof (cases "gotoNextTransaction item")
          case None
          with "1.prems" Some p False
          have "selectTransactionsToEvict n g1 (acc @ [currentTransaction item]) = (txs, g')"
            by simp
          from "1.IH"(1) [OF Some p [symmetric] _ None this] False
          have "heapSize g' \<le> heapSize g1" by simp
          with size show ?thesis by simp
        next
          case (Some nxt)
          with "1.prems" \<open>heapPop g = Some p\<close> p False
          have "selectTransactionsToEvict n (heapPush g1 nxt) (acc @ [currentTransaction item])
                  = (txs, g')"
            by simp
          from "1.IH"(2) [OF \<open>heapPop g = Some p\<close> p [symmetric] _ Some this] False
          have "heapSize g' \<le> heapSize (heapPush g1 nxt)" by simp
          moreover from Some have "Suc (length (bunchRest nxt)) = length (bunchRest item)"
            by (auto simp: gotoNextTransaction_def split: list.splits)
          ultimately show ?thesis
            using size by (simp add: heapPush_def heapSize_def)
        qed
      qed
    qed
  qed
  from sel [symmetric] have "selectTransactionsToEvict
                   (unat (NumItemsToPreemptivelyEvict (config cache))) h []
                 = (transactionsToEvict, h')" .
  from decr [OF this] nonempty
  show "((evictTransactions cache transactionsToEvict, h'), (cache, h))
          \<in> measure (\<lambda>(cache, h). heapSize h)"
    by simp
qed

record evictionJournal =
  numEvicted :: nat
  numEvictedByPass :: "nat list"

definition evictLeastLikelyToSelectTransactions :: "TxCache \<Rightarrow> evictionJournal \<times> TxCache" where
  "evictLeastLikelyToSelectTransactions cache =
     (let passes = evictionPasses cache (initialTransactionsHeap cache)
      in (\<lparr>numEvicted = sum_list (map (\<lambda>(transactionsToEvict, after). length transactionsToEvict) passes),
           numEvictedByPass = map (\<lambda>(transactionsToEvict, after). length transactionsToEvict) passes\<rparr>,
          (if passes = [] then cache else snd (last passes))))"

text \<open>
  \<open>doEviction\<close>: nothing when an eviction is in progress or the capacity is not exceeded; else
  the flag is set, the capacity checked again, the eviction run, and the flag reset.
\<close>

definition doEviction :: "TxCache \<Rightarrow> evictionJournal option \<times> TxCache" where
  "doEviction cache =
     (if isEvictionInProgress cache then (None, cache)
      else if \<not> isCapacityExceeded cache then (None, cache)
      else (let locked = cache\<lparr>isEvictionInProgress := True\<rparr>
            in if \<not> isCapacityExceeded locked
               then (None, locked\<lparr>isEvictionInProgress := False\<rparr>)
               else (case evictLeastLikelyToSelectTransactions locked of
                       (journal, after) \<Rightarrow>
                         (Some journal, after\<lparr>isEvictionInProgress := False\<rparr>))))"

section \<open>AddTx and RemoveTxByHash (txCache.go)\<close>

definition withHandler ::
  "(TransactionHandler option) WrappedTransactionOf \<Rightarrow> TransactionHandler \<Rightarrow> WrappedTransaction" where
  "withHandler tx handler =
     \<lparr>Tx = handler, TxHash = TxHash tx, Size = Size tx, PricePerGasUnit = PricePerGasUnit tx,
      TransferredValue = TransferredValue tx, Fee = Fee tx, FeePayer = FeePayer tx\<rparr>"

text \<open>The body of \<open>AddTx\<close> after the nil checks and the precomputation (lines 67 to 91).\<close>

definition addPrecomputedTx :: "TxCache \<Rightarrow> WrappedTransaction \<Rightarrow> bool \<times> bool \<times> TxCache" where
  "addPrecomputedTx cache tx =
     (let cache1 = (if EvictionEnabled (config cache) then snd (doEviction cache) else cache)
      in (case txByHash_addTx (txByHash cache1) tx of
            (addedInByHash, byHash1) \<Rightarrow>
              (case addTxReturnEvicted (getSenderConstraints (config cache1))
                      (txListBySender cache1) tx of
                 (addedInBySender, evicted, bySender1) \<Rightarrow>
                   (let byHash2 = (if length evicted > 0
                                   then snd (RemoveTxsBulk byHash1 evicted) else byHash1)
                    in (True, addedInByHash \<or> addedInBySender,
                        cache1\<lparr>txListBySender := bySender1, txByHash := byHash2\<rparr>)))))"

definition AddTx :: "TxCache \<Rightarrow> WrappedTransactionPtr \<Rightarrow> bool \<times> bool \<times> TxCache" where
  "AddTx cache txPtr =
     (case txPtr of
        None \<Rightarrow> (False, False, cache)
      | Some tx \<Rightarrow>
          (case Tx tx of
             None \<Rightarrow> (False, False, cache)
           | Some handler \<Rightarrow>
               addPrecomputedTx cache (precomputeFields (host cache) (withHandler tx handler))))"

definition RemoveTxByHash :: "TxCache \<Rightarrow> string \<Rightarrow> bool \<times> TxCache" where
  "RemoveTxByHash cache txHash =
     (case removeTx (txByHash cache) txHash of
        None \<Rightarrow> (False, cache)
      | Some (tx, byHash1) \<Rightarrow>
          (case removeTransactionsWithLowerOrEqualNonceReturnHashes (txListBySender cache) tx of
             (evicted, bySender1) \<Rightarrow>
               (let byHash2 = (if length evicted > 0
                               then snd (RemoveTxsBulk byHash1 evicted) else byHash1)
                in (True, cache\<lparr>txListBySender := bySender1, txByHash := byHash2\<rparr>))))"

text \<open>
  Every address the session was asked about has a record, and was asked about once.
\<close>

definition wrapperInv :: "selectionSessionWrapper \<Rightarrow> bool" where
  "wrapperInv w =
     (distinct (sessionCalls w) \<and> set (sessionCalls w) = dom (recordsByAddress w))"

section \<open>Test fixtures\<close>

text \<open>
  A host whose precomputation sets the fee to gas limit times gas price and the transferred
  value to the value of the transaction, the transactions and the caches of the scenarios.
\<close>

definition mockHost :: MempoolHost where
  "mockHost =
     \<lparr>precompute = (\<lambda>tx. tx\<lparr>TransferredValue := GetValue (Tx tx),
          Fee := Some (int (unat (GetGasLimit (Tx tx)) * unat (GetGasPrice (Tx tx))))\<rparr>)\<rparr>"

text \<open>The transaction as \<open>AddTx\<close> leaves it behind the caller's pointer.\<close>

definition asPointer :: "WrappedTransaction \<Rightarrow> WrappedTransactionPtr" where
  "asPointer tx =
     Some \<lparr>Tx = Some (Tx tx), TxHash = TxHash tx, Size = Size tx,
           PricePerGasUnit = PricePerGasUnit tx, TransferredValue = TransferredValue tx,
           Fee = Fee tx, FeePayer = FeePayer tx\<rparr>"

definition newTx :: "string \<Rightarrow> string \<Rightarrow> 64 word \<Rightarrow> nat \<Rightarrow> nat \<Rightarrow> WrappedTransaction" where
  "newTx hash sender nonce numBytes ppu =
     \<lparr>Tx = \<lparr>GetNonce = nonce, GetSndAddr = sender, GetGasLimit = 50000,
             GetGasPrice = 1000000000, GetData = [], GetValue = Some 0\<rparr>,
      TxHash = hash, Size = numBytes, PricePerGasUnit = ppu, TransferredValue = None,
      Fee = None, FeePayer = sender\<rparr>"

definition createTx :: "string \<Rightarrow> string \<Rightarrow> 64 word \<Rightarrow> nat \<Rightarrow> nat \<Rightarrow> WrappedTransactionPtr" where
  "createTx hash sender nonce numBytes ppu = asPointer (newTx hash sender nonce numBytes ppu)"

text \<open>The transaction of \<open>createTx\<close> as a cache with the host \<open>mockHost\<close> stores it.\<close>

definition storedTx :: "string \<Rightarrow> string \<Rightarrow> 64 word \<Rightarrow> nat \<Rightarrow> nat \<Rightarrow> WrappedTransaction" where
  "storedTx hash sender nonce numBytes ppu =
     precomputeFields mockHost (newTx hash sender nonce numBytes ppu)"

definition newTxCache :: "ConfigSourceMe \<Rightarrow> MempoolHost \<Rightarrow> TxCache" where
  "newTxCache cfg h =
     \<lparr>txListBySender = [], txByHash = [], config = cfg, host = h, isEvictionInProgress = False\<rparr>"

definition testConfig :: "bool \<Rightarrow> 32 word \<Rightarrow> 32 word \<Rightarrow> 32 word \<Rightarrow> 32 word \<Rightarrow> ConfigSourceMe" where
  "testConfig evictionEnabled numBytesThreshold countThreshold countPerSenderThreshold
       numItemsToPreemptivelyEvict =
     \<lparr>Name = ''test'', NumChunks = 16, NumBytesThreshold = numBytesThreshold,
      NumBytesPerSenderThreshold = 4294967295, CountThreshold = countThreshold,
      CountPerSenderThreshold = countPerSenderThreshold, EvictionEnabled = evictionEnabled,
      NumItemsToPreemptivelyEvict = numItemsToPreemptivelyEvict\<rparr>"

definition addAll :: "TxCache \<Rightarrow> WrappedTransactionPtr list \<Rightarrow> TxCache" where
  "addAll cache txs = foldl (\<lambda>c tx. snd (snd (AddTx c tx))) cache txs"

text \<open>
  One transaction for each sender and nonce, sender by sender: the sender is one character,
  the hash the sender followed by the nonce's character.
\<close>

definition addManyTransactionsWithUniformDistribution ::
  "TxCache \<Rightarrow> string \<Rightarrow> string \<Rightarrow> TxCache" where
  "addManyTransactionsWithUniformDistribution cache senders nonces =
     addAll cache
       (concat (map (\<lambda>s. map (\<lambda>n. createTx [s, n] [s] (of_nat (of_char n)) 128 (of_char n))
                             nonces) senders))"

text \<open>The cache of scenario S1 with alice at her limit of three transactions.\<close>

definition aliceAtLimit :: TxCache where
  "aliceAtLimit =
     addAll (newTxCache (testConfig False 4294967295 4294967295 3 1) mockHost)
       [createTx ''tx-alice-1'' ''alice'' 1 128 1,
        createTx ''tx-alice-2'' ''alice'' 2 128 1,
        createTx ''tx-alice-3'' ''alice'' 3 128 1]"

text \<open>
  The two maps agree: every entry of the tx-by-hash map is stored under its own hash and is
  in the list of its sender.
\<close>

definition areInternalMapsConsistent :: "TxCache \<Rightarrow> bool" where
  "areInternalMapsConsistent cache =
     list_all (\<lambda>(txHash, tx). TxHash tx = txHash
                 \<and> tx \<in> set (GetTransactionsPoolForSender cache (txSender tx)))
       (txByHash cache)"

section \<open>Properties\<close>

subsection \<open>Selection session wrapper\<close>

lemma wrapperInv_new: "wrapperInv (newSelectionSessionWrapper s)"
  by (simp add: wrapperInv_def newSelectionSessionWrapper_def)

lemma wrapperInv_getAccountRecord: "wrapperInv w \<Longrightarrow> wrapperInv (snd (getAccountRecord w a))"
  by (auto simp: wrapperInv_def getAccountRecord_def Let_def split: option.splits)

lemma wrapperInv_addToConsumedBalance: "wrapperInv w \<Longrightarrow> wrapperInv (addToConsumedBalance w a v)"
  by (auto simp: wrapperInv_def addToConsumedBalance_def split: option.splits)

lemma wrapperInv_accumulate: "wrapperInv w \<Longrightarrow> wrapperInv (accumulateConsumedBalance w tx)"
  by (simp add: accumulateConsumedBalance_def Let_def wrapperInv_getAccountRecord
      wrapperInv_addToConsumedBalance split: option.splits)

lemma wrapperInv_detect: "wrapperInv w \<Longrightarrow> wrapperInv (snd (detectWillFeeExceedBalance w tx))"
  using wrapperInv_getAccountRecord [of w "FeePayer tx"]
  by (auto simp: detectWillFeeExceedBalance_def Let_def split: option.splits prod.splits)

lemma wrapperInv_applyOp:
  assumes "wrapperInv w"
  shows "wrapperInv (applyOp w op)"
proof (cases op)
  case (OpGetNonce a)
  then show ?thesis
    using assms wrapperInv_getAccountRecord [of w a]
    by (auto simp: getNonce_def split: prod.splits)
qed (simp_all add: assms wrapperInv_accumulate wrapperInv_detect wrapperInv_getAccountRecord)

lemma wrapperInv_runOps: "wrapperInv w \<Longrightarrow> wrapperInv (runOps w ops)"
  unfolding runOps_def
  by (induction ops arbitrary: w) (simp_all add: wrapperInv_applyOp)

text \<open>
  Claim C8. A lookup of an address that has a record returns that record and leaves the
  wrapper as it is, without a call to the session. A lookup of an address without a record
  calls the session once, stores a record under the address and returns it: the record has
  the nonce and balance the session gave and consumed balance 0, or is \<open>{0, 0, 0}\<close> when the
  session returned an error. A second lookup of the address returns the stored record.
  In every run of wrapper operations from a fresh wrapper, the session is called at most
  once for each address.
\<close>

theorem getAccountRecord_consults_session_once:
  "(recordsByAddress w a = Some r \<longrightarrow> getAccountRecord w a = (r, w))
   \<and> (recordsByAddress w a = None \<longrightarrow>
        sessionCalls (snd (getAccountRecord w a)) = sessionCalls w @ [a]
        \<and> recordsByAddress (snd (getAccountRecord w a)) =
            (recordsByAddress w)(a \<mapsto> fst (getAccountRecord w a))
        \<and> fst (getAccountRecord w a) =
            (case session w a of
               Inl err \<Rightarrow> \<lparr>initialNonce = 0, initialBalance = 0, consumedBalance = 0\<rparr>
             | Inr state \<Rightarrow> \<lparr>initialNonce = Nonce state, initialBalance = Balance state,
                             consumedBalance = 0\<rparr>))
   \<and> getAccountRecord (snd (getAccountRecord w a)) a =
        (fst (getAccountRecord w a), snd (getAccountRecord w a))
   \<and> distinct (sessionCalls (runOps (newSelectionSessionWrapper s) ops))"
proof -
  have "wrapperInv (runOps (newSelectionSessionWrapper s) ops)"
    by (rule wrapperInv_runOps) (rule wrapperInv_new)
  then have "distinct (sessionCalls (runOps (newSelectionSessionWrapper s) ops))"
    by (simp add: wrapperInv_def)
  moreover have "getAccountRecord (snd (getAccountRecord w a)) a =
        (fst (getAccountRecord w a), snd (getAccountRecord w a))"
    by (simp add: getAccountRecord_def Let_def split: option.splits)
  ultimately show ?thesis
    by (simp add: getAccountRecord_def Let_def split: option.splits)
qed


theorem getAccountRecord_consults_session_once_witness:
  "recordsByAddress (newSelectionSessionWrapper (\<lambda>a. Inl (SessionError ''missing''))) ''alice'' = None
   \<and> fst (getAccountRecord (newSelectionSessionWrapper (\<lambda>a. Inl (SessionError ''missing''))) ''alice'')
       = \<lparr>initialNonce = 0, initialBalance = 0, consumedBalance = 0\<rparr>
   \<and> sessionCalls (snd (getAccountRecord (newSelectionSessionWrapper (\<lambda>a. Inl (SessionError ''missing''))) ''alice''))
       = [''alice'']"
  using getAccountRecord_consults_session_once
    [of "newSelectionSessionWrapper (\<lambda>a. Inl (SessionError ''missing''))" "''alice''" undefined
        "\<lambda>a. Inl (SessionError ''missing'')" "[]"]
  by (simp add: newSelectionSessionWrapper_def)

lemma fst_getAccountRecord_again:
  "fst (getAccountRecord (snd (getAccountRecord w a)) b) = fst (getAccountRecord w b)"
  by (simp add: getAccountRecord_def Let_def split: option.splits)

lemma stored_getAccountRecord:
  "recordsByAddress (snd (getAccountRecord w a)) a \<noteq> None"
  by (simp add: getAccountRecord_def Let_def split: option.splits)

lemma stored_kept_getAccountRecord:
  "recordsByAddress w a \<noteq> None \<Longrightarrow> recordsByAddress (snd (getAccountRecord w b)) a \<noteq> None"
  by (simp add: getAccountRecord_def Let_def split: option.splits)

lemma stored_kept_addToConsumedBalance:
  "recordsByAddress w a \<noteq> None \<Longrightarrow> recordsByAddress (addToConsumedBalance w b v) a \<noteq> None"
  by (simp add: addToConsumedBalance_def split: option.splits)

lemma fst_getAccountRecord_addToConsumedBalance:
  "recordsByAddress w a \<noteq> None \<Longrightarrow>
     fst (getAccountRecord (addToConsumedBalance w a v) b) =
       (if a = b
        then (fst (getAccountRecord w b))\<lparr>consumedBalance := consumedBalance (fst (getAccountRecord w b)) + v\<rparr>
        else fst (getAccountRecord w b))"
  by (auto simp: getAccountRecord_def addToConsumedBalance_def Let_def split: option.splits)

lemma fst_getAccountRecord_accumulate:
  "fst (getAccountRecord (accumulateConsumedBalance w tx) a) =
     (fst (getAccountRecord w a))\<lparr>consumedBalance :=
        consumedBalance (fst (getAccountRecord w a))
        + (if a = GetSndAddr (Tx tx) then (case TransferredValue tx of None \<Rightarrow> 0 | Some v \<Rightarrow> v) else 0)
        + (if a = FeePayer tx then (case Fee tx of None \<Rightarrow> 0 | Some f \<Rightarrow> f) else 0)\<rparr>"
  by (cases "TransferredValue tx"; cases "Fee tx")
     (simp_all add: accumulateConsumedBalance_def Let_def
        stored_getAccountRecord stored_kept_getAccountRecord stored_kept_addToConsumedBalance
        fst_getAccountRecord_addToConsumedBalance fst_getAccountRecord_again)

lemma consumedBalanceOf_accumulate:
  "consumedBalanceOf (accumulateConsumedBalance w tx) a =
     consumedBalanceOf w a
     + (if a = GetSndAddr (Tx tx) then (case TransferredValue tx of None \<Rightarrow> 0 | Some v \<Rightarrow> v) else 0)
     + (if a = FeePayer tx then (case Fee tx of None \<Rightarrow> 0 | Some f \<Rightarrow> f) else 0)"
  by (simp add: consumedBalanceOf_def fst_getAccountRecord_accumulate)

lemma initialBalanceOf_accumulate:
  "initialBalanceOf (accumulateConsumedBalance w tx) a = initialBalanceOf w a"
  by (simp add: initialBalanceOf_def fst_getAccountRecord_accumulate)

lemma detect_fst:
  "Fee tx = Some fee \<Longrightarrow>
     fst (detectWillFeeExceedBalance w tx) =
       (consumedBalanceOf w (FeePayer tx) + fee > initialBalanceOf w (FeePayer tx))"
  by (simp add: detectWillFeeExceedBalance_def consumedBalanceOf_def initialBalanceOf_def
      Let_def split: prod.splits)

lemma fst_getAccountRecord_detect:
  "fst (getAccountRecord (snd (detectWillFeeExceedBalance w tx)) a) = fst (getAccountRecord w a)"
proof (cases "Fee tx")
  case None
  then show ?thesis by (simp add: detectWillFeeExceedBalance_def)
next
  case (Some fee)
  then have "snd (detectWillFeeExceedBalance w tx) = snd (getAccountRecord w (FeePayer tx))"
    by (simp add: detectWillFeeExceedBalance_def Let_def split: prod.splits)
  then show ?thesis by (simp add: fst_getAccountRecord_again)
qed

lemma consumedBalanceOf_detect:
  "consumedBalanceOf (snd (detectWillFeeExceedBalance w tx)) a = consumedBalanceOf w a"
  by (simp add: consumedBalanceOf_def fst_getAccountRecord_detect)

lemma initialBalanceOf_detect:
  "initialBalanceOf (snd (detectWillFeeExceedBalance w tx)) a = initialBalanceOf w a"
  by (simp add: initialBalanceOf_def fst_getAccountRecord_detect)

lemma aliceSession_fresh:
  "consumedBalanceOf (newSelectionSessionWrapper aliceSession) a = 0"
  "initialBalanceOf (newSelectionSessionWrapper aliceSession) a = 100"
  by (simp_all add: consumedBalanceOf_def initialBalanceOf_def getAccountRecord_def
      newSelectionSessionWrapper_def aliceSession_def Let_def)

text \<open>
  Claim C9. For a transaction with a fee, the balance gate reports that the fee would exceed
  the balance exactly when the fee payer's consumed balance plus the fee is greater than the
  fee payer's initial balance, over the integers. With a balance of 100 and two transactions
  of fee 60 each (and no transferred value), the first passes the gate, the consumed balance
  becomes 60, and the second is rejected.
\<close>

theorem detectWillFeeExceedBalance_iff:
  "(Fee tx = Some fee \<longrightarrow>
      fst (detectWillFeeExceedBalance w tx) =
        (consumedBalanceOf w (FeePayer tx) + fee > initialBalanceOf w (FeePayer tx)))
   \<and> (let w0 = newSelectionSessionWrapper aliceSession;
           tx1 = aliceTx 1 ''hash-1'' (Some 0) (Some 60);
           tx2 = aliceTx 2 ''hash-2'' (Some 0) (Some 60);
           w1 = snd (detectWillFeeExceedBalance w0 tx1);
           w2 = accumulateConsumedBalance w1 tx1
       in \<not> fst (detectWillFeeExceedBalance w0 tx1)
          \<and> consumedBalanceOf w2 ''alice'' = 60
          \<and> fst (detectWillFeeExceedBalance w2 tx2))"
proof -
  have fee: "Fee (aliceTx n h v (Some f)) = Some f" "FeePayer (aliceTx n h v (Some f)) = ''alice''"
    "GetSndAddr (Tx (aliceTx n h v (Some f))) = ''alice''"
    "TransferredValue (aliceTx n h v (Some f)) = v" for n h v f
    by (simp_all add: aliceTx_def)
  show ?thesis
    by (simp add: detect_fst fee Let_def consumedBalanceOf_accumulate consumedBalanceOf_detect
        initialBalanceOf_accumulate initialBalanceOf_detect aliceSession_fresh)
qed

theorem detectWillFeeExceedBalance_iff_witness:
  "Fee (aliceTx 1 ''hash-1'' (Some 0) (Some 60)) = Some 60
   \<and> fst (detectWillFeeExceedBalance (newSelectionSessionWrapper aliceSession)
            (aliceTx 1 ''hash-1'' (Some 0) (Some 60))) = False"
  using detectWillFeeExceedBalance_iff [of "aliceTx 1 ''hash-1'' (Some 0) (Some 60)" 60 "newSelectionSessionWrapper aliceSession"]
  by (simp add: aliceTx_def consumedBalanceOf_def initialBalanceOf_def getAccountRecord_def
      newSelectionSessionWrapper_def aliceSession_def Let_def)

text \<open>
  Claim C10 as stated fails where the fee payer is the sender: with a nil fee and a
  transferred value of 5, the fee payer's consumed balance goes from 0 to 5.
\<close>

theorem nil_fee_consumed_balance_counterexample:
  "Fee (aliceTx 1 ''hash-1'' (Some 5) None) = None
   \<and> consumedBalanceOf (newSelectionSessionWrapper aliceSession)
        (FeePayer (aliceTx 1 ''hash-1'' (Some 5) None)) = 0
   \<and> consumedBalanceOf
        (accumulateConsumedBalance (newSelectionSessionWrapper aliceSession)
           (aliceTx 1 ''hash-1'' (Some 5) None))
        (FeePayer (aliceTx 1 ''hash-1'' (Some 5) None)) = 5"
  by (simp add: consumedBalanceOf_accumulate)
     (simp add: aliceTx_def consumedBalanceOf_def getAccountRecord_def
      newSelectionSessionWrapper_def aliceSession_def Let_def)

text \<open>
  Claim C10, amended. For a transaction with a nil fee the balance gate returns false and
  leaves the wrapper as it is, and \<open>accumulateConsumedBalance\<close> adds no fee: the fee payer's
  consumed balance grows by the transferred value when the fee payer is the sender, and is
  unchanged otherwise. With a nil transferred value the sender's consumed balance grows by
  the fee when the sender is the fee payer, and is unchanged otherwise.
\<close>

theorem nil_fee_adds_nothing:
  "(Fee tx = None \<longrightarrow>
      detectWillFeeExceedBalance w tx = (False, w)
      \<and> consumedBalanceOf (accumulateConsumedBalance w tx) (FeePayer tx) =
          consumedBalanceOf w (FeePayer tx)
          + (if FeePayer tx = GetSndAddr (Tx tx)
             then (case TransferredValue tx of None \<Rightarrow> 0 | Some v \<Rightarrow> v) else 0))
   \<and> (TransferredValue tx = None \<longrightarrow>
        consumedBalanceOf (accumulateConsumedBalance w tx) (GetSndAddr (Tx tx)) =
          consumedBalanceOf w (GetSndAddr (Tx tx))
          + (if GetSndAddr (Tx tx) = FeePayer tx
             then (case Fee tx of None \<Rightarrow> 0 | Some f \<Rightarrow> f) else 0))"
  by (simp add: consumedBalanceOf_accumulate detectWillFeeExceedBalance_def)

theorem nil_fee_adds_nothing_witness:
  "Fee (aliceTx 1 ''hash-1'' None None) = None
   \<and> TransferredValue (aliceTx 1 ''hash-1'' None None) = None
   \<and> detectWillFeeExceedBalance (newSelectionSessionWrapper aliceSession)
        (aliceTx 1 ''hash-1'' None None) = (False, newSelectionSessionWrapper aliceSession)
   \<and> consumedBalanceOf
        (accumulateConsumedBalance (newSelectionSessionWrapper aliceSession)
           (aliceTx 1 ''hash-1'' None None)) ''alice'' = 0"
  using nil_fee_adds_nothing [of "aliceTx 1 ''hash-1'' None None" "newSelectionSessionWrapper aliceSession"]
  by (simp add: aliceTx_def consumedBalanceOf_def getAccountRecord_def
      newSelectionSessionWrapper_def aliceSession_def Let_def)

end
